theory Spec2Isabelle
  imports Main "HOL-Library.Sublist" "HOL-Library.AList" "HOL-Library.Multiset"
    "HOL-Library.List_Lexorder" "HOL-Library.Char_ord"
begin

section \<open>Data model\<close>

text \<open>
  Errors that the operating system, the XDG library and the JSON decoder hand back.
  The program never inspects them; it only tests them against \<open>nil\<close> and stores them.
\<close>

datatype os_error =
  ENOENT | ENOTDIR | EISDIR | EEXIST | ENOTEMPTY | EINVAL | EACCES | EROFS | ENOSPC
  | SyntaxError | UnmarshalTypeError | OtherError string


text \<open>
  \<open>file.Change\<close> (package \<open>internal/file\<close>): the fields that \<open>rename.go\<close> reads and
  writes. \<open>Error\<close> is the nilable failure marker; \<open>None\<close> is Go's \<open>nil\<close>.
\<close>

record Change =
  BaseDir :: string
  Source :: string
  Target :: string
  Error :: "os_error option"

text \<open>\<open>config.Config\<close>: the fields that \<open>rename.go\<close> and \<open>json.go\<close> read.\<close>

record Config =
  Verbose :: bool
  Revert :: bool
  IncludeDir :: bool
  Interactive :: bool
  Exec :: bool
  JSON :: bool
  WorkingDir :: string
  Date :: string

text \<open>
  What the program writes to the terminal, in the order it writes it: the two verbose
  lines of \<open>commit\<close> and the calls into package \<open>report\<close>.
\<close>

datatype report =
  FailedToRename string string
  | Renamed string string
  | BackupFailed os_error
  | NonInteractive "Change list"
  | InteractiveReport "Change list"
  | JSONReport "Change list"

section \<open>Strings\<close>

text \<open>\<open>strings.Contains\<close>.\<close>

fun strings_Contains :: "string \<Rightarrow> string \<Rightarrow> bool" where
  "strings_Contains [] substr = (substr = [])"
| "strings_Contains (c # s) substr = (prefix substr (c # s) \<or> strings_Contains s substr)"

text \<open>
  \<open>strings.ReplaceAll\<close> for a non-empty \<open>old\<close>: the non-overlapping occurrences are
  replaced from the left. (For an empty \<open>old\<close> Go inserts \<open>new\<close> around every rune; the
  program only replaces the path separator and the colon.)
\<close>

fun strings_ReplaceAll :: "string \<Rightarrow> string \<Rightarrow> string \<Rightarrow> string" where
  "strings_ReplaceAll [] old new = []"
| "strings_ReplaceAll (c # s) old new =
     (if old = [] then c # s
      else if prefix old (c # s)
        then new @ strings_ReplaceAll (drop (length old) (c # s)) old new
      else c # strings_ReplaceAll s old new)"

text \<open>\<open>fmt.Sprintf("%d", n)\<close>: the decimal digits of an integer.\<close>

definition digit_char :: "nat \<Rightarrow> char" where
  "digit_char d = ''0123456789'' ! (d mod 10)"

function decimal :: "int \<Rightarrow> string" where
  "decimal n = (if n < 10 then [digit_char (nat n)]
                else decimal (n div 10) @ [digit_char (nat (n mod 10))])"
  by pat_completeness auto
termination
  by (relation "measure nat") auto

declare decimal.simps [simp del]

definition Sprintf_d :: "int \<Rightarrow> string" where
  "Sprintf_d n = (if n < 0 then CHR ''-'' # decimal (- n) else decimal n)"

section \<open>The JSON document\<close>

text \<open>
  A JSON document as \<open>encoding/json\<close> builds it, before it is laid out as text: an object
  keeps its members in the order of the struct's fields. The content of a file is the
  sequence of documents written to it, so a file that was appended to instead of
  truncated holds more than one and no longer parses.
\<close>

datatype json =
  JNull | JBool bool | JNumber int | JString string
  | JArray "json list" | JObject "(string \<times> json) list"

type_synonym bytes = "json list"

text \<open>
  \<open>Output\<close> (\<open>json.go\<close>, lines 15 to 22). A slice that the code compares with \<open>nil\<close> is
  an option: \<open>None\<close> is the nil slice, \<open>Some []\<close> the empty slice that \<open>make\<close> returns.
  \<open>conflict.Collection\<close> is a map that this program passes through unread.
\<close>

record Output =
  Conflicts :: "(string \<times> json) list"
  WorkingDir_out :: string
  Date_out :: string
  Changes :: "Change list option"
  Errors :: "nat list option"
  DryRun :: bool

text \<open>
  A struct field of slice type under \<open>encoding/json\<close>: the nil slice is \<open>null\<close>, any other
  slice an array, and with \<open>omitempty\<close> in the field's tag a slice of length 0, nil or
  not, leaves the member out.
\<close>

definition slice_member :: "string \<Rightarrow> bool \<Rightarrow> json list option \<Rightarrow> (string \<times> json) list" where
  "slice_member name omitempty v =
     (case v of
        None \<Rightarrow> if omitempty then [] else [(name, JNull)]
      | Some xs \<Rightarrow> if omitempty \<and> xs = [] then [] else [(name, JArray xs)])"

text \<open>
  The members of a \<open>file.Change\<close> that the schema of the backup file names
  (\<open>source\<close>, \<open>target\<close>, \<open>base_dir\<close>); the struct's declaration is not under \<open>src/\<close>.
\<close>

definition marshal_Change :: "Change \<Rightarrow> json" where
  "marshal_Change c =
     JObject [(''source'', JString (Source c)), (''target'', JString (Target c)),
              (''base_dir'', JString (BaseDir c))]"

text \<open>
  \<open>json.MarshalIndent\<close> on an \<open>Output\<close>, by the tags of lines 16 to 21:
  \<open>conflicts\<close>, \<open>changes\<close> and \<open>errors\<close> carry \<open>omitempty\<close>.
\<close>

definition json_MarshalIndent :: "Output \<Rightarrow> os_error + bytes" where
  "json_MarshalIndent out =
     Inr [JObject
       ((if Conflicts out = [] then [] else [(''conflicts'', JObject (Conflicts out))]) @
        [(''working_dir'', JString (WorkingDir_out out)), (''date'', JString (Date_out out))] @
        slice_member ''changes'' True (map_option (map marshal_Change) (Changes out)) @
        slice_member ''errors'' True (map_option (map (\<lambda>i. JNumber (int i))) (Errors out)) @
        [(''dry_run'', JBool (DryRun out))])]"

section \<open>Directory entries\<close>

text \<open>What \<open>find.go\<close> reads of an \<open>os.DirEntry\<close> and of an \<open>os.FileInfo\<close>.\<close>

record DirEntry =
  Name :: string
  IsDir :: bool

text \<open>
  \<open>internalpath.Collection\<close>, a Go map from a directory to its entries, as an
  association list: \<open>range\<close> visits the keys in the order of the list (Go leaves the
  order open), and \<open>AList.update\<close> is the assignment \<open>paths[dir] = entries\<close>.
\<close>

type_synonym Collection = "(string \<times> DirEntry list) list"

section \<open>The environment\<close>

text \<open>
  Everything \<open>rename.go\<close> calls outside the repository, over a state \<open>'w\<close> of the world:
  the platform (\<open>runtime.GOOS\<close>, \<open>internalpath.Separator\<close>), \<open>path/filepath\<close>,
  \<open>strings.EqualFold\<close>, the clock, the filesystem calls of package \<open>os\<close>, the XDG data
  directory, the files opened there, and the terminal. A call that can fail returns its
  error beside the new state. The functions of the repository that are not under
  \<open>src/\<close> are taken the same way: \<open>sortfiles.FilesBeforeDirs\<close>, \<open>isHidden\<close>,
  \<open>validate.GetConflicts\<close> and the functions of package \<open>report\<close> (\<open>print\<close>), and with
  them the \<open>sort.SliceStable\<close> call of \<open>commit\<close>, whose comparison (is the element at
  \<open>i\<close> free of an error?) is not an ordering, so that the library's result is its own.
  A file handle is the name the file was opened under.
\<close>

record 'w sys =
  GOOS_windows :: bool
  Separator :: string
  filepath_Join :: "string list \<Rightarrow> string"
  filepath_Dir :: "string \<Rightarrow> string"
  filepath_Clean :: "string \<Rightarrow> string"
  EqualFold :: "string \<Rightarrow> string \<Rightarrow> bool"
  UnixNano :: "'w \<Rightarrow> int \<times> 'w"
  os_MkdirAll :: "string \<Rightarrow> 'w \<Rightarrow> os_error option \<times> 'w"
  os_Rename :: "string \<Rightarrow> string \<Rightarrow> 'w \<Rightarrow> os_error option \<times> 'w"
  os_Remove :: "string \<Rightarrow> 'w \<Rightarrow> os_error option \<times> 'w"
  os_ReadFile :: "string \<Rightarrow> 'w \<Rightarrow> os_error + bytes"
  os_Create :: "string \<Rightarrow> 'w \<Rightarrow> (os_error + string) \<times> 'w"
  file_Write :: "string \<Rightarrow> bytes \<Rightarrow> 'w \<Rightarrow> os_error option \<times> 'w"
  file_Close :: "string \<Rightarrow> 'w \<Rightarrow> os_error option \<times> 'w"
  xdg_DataFile :: "string \<Rightarrow> 'w \<Rightarrow> (os_error + string) \<times> 'w"
  xdg_SearchDataFile :: "string \<Rightarrow> 'w \<Rightarrow> os_error + string"
  json_Unmarshal :: "bytes \<Rightarrow> os_error + Output"
  GetConflicts :: "(string \<times> json) list"
  print :: "report \<Rightarrow> 'w \<Rightarrow> 'w"
  FilesBeforeDirs :: "Change list \<Rightarrow> bool \<Rightarrow> Change list"
  SliceStable :: "Change list \<Rightarrow> Change list"
  os_Stat :: "string \<Rightarrow> 'w \<Rightarrow> os_error + DirEntry"
  os_ReadDir :: "string \<Rightarrow> 'w \<Rightarrow> os_error + DirEntry list"
  isHidden :: "string \<Rightarrow> string \<Rightarrow> 'w \<Rightarrow> os_error + bool"

section \<open>rename\<close>

text \<open>
  The condition of line 69: \<open>&&\<close> binds tighter than \<open>||\<close>, so a slash counts on every
  platform and a backslash on Windows only.
\<close>

definition target_has_separator :: "'w sys \<Rightarrow> string \<Rightarrow> bool" where
  "target_has_separator sys target =
     (strings_Contains target ''/'' \<or> strings_Contains target [CHR 0x5C] \<and> GOOS_windows sys)"

text \<open>
  Lines 86 to 100 of \<open>rename\<close>: step 2, step 3 when step 2 succeeded on a case
  insensitive match, and the bookkeeping of a failure. The state is the package
  variable \<open>errs\<close> and the world.
\<close>

definition rename_steps ::
  "'w sys \<Rightarrow> nat \<Rightarrow> Change \<Rightarrow> string \<Rightarrow> string \<Rightarrow> bool \<Rightarrow> nat list \<times> 'w
    \<Rightarrow> Change \<times> nat list \<times> 'w" where
  "rename_steps sys i change sourcePath targetPath caseInsensitiveFS st =
     (case st of (errs, w) \<Rightarrow>
      (case os_Rename sys sourcePath targetPath w of (err, w1) \<Rightarrow>
       (case (if err = None \<and> caseInsensitiveFS
              then os_Rename sys targetPath
                     (filepath_Join sys [BaseDir change, Target change]) w1
              else (err, w1)) of
          (None, w2) \<Rightarrow> (change, errs, w2)
        | (Some e, w2) \<Rightarrow> (change\<lparr>Error := Some e\<rparr>, errs @ [i], w2))))"

text \<open>One iteration of the loop of \<open>rename\<close> (lines 41 to 100), for the change at index \<open>i\<close>.\<close>

definition rename_iteration ::
  "'w sys \<Rightarrow> nat \<Rightarrow> Change \<Rightarrow> nat list \<times> 'w \<Rightarrow> Change \<times> nat list \<times> 'w" where
  "rename_iteration sys i change st =
     (case st of (errs, w) \<Rightarrow>
      (let sourcePath = filepath_Join sys [BaseDir change, Source change];
           targetPath = filepath_Join sys [BaseDir change, Target change]
       in if sourcePath = targetPath then (change, errs, w)
          else
            (case (if EqualFold sys sourcePath targetPath
                   then (case UnixNano sys w of (ns, w0) \<Rightarrow>
                           (True,
                            filepath_Join sys
                              [BaseDir change, ''__'' @ Sprintf_d ns @ ''__'' @ Target change],
                            w0))
                   else (False, targetPath, w)) of
               (caseInsensitiveFS, targetPath, w0) \<Rightarrow>
                 if target_has_separator sys (Target change)
                 then (case os_MkdirAll sys
                              (filepath_Join sys
                                 [BaseDir change, filepath_Dir sys (Target change)]) w0 of
                         (Some e, w1) \<Rightarrow> (change\<lparr>Error := Some e\<rparr>, errs @ [i], w1)
                       | (None, w1) \<Rightarrow>
                           rename_steps sys i change sourcePath targetPath
                             caseInsensitiveFS (errs, w1))
                 else rename_steps sys i change sourcePath targetPath
                        caseInsensitiveFS (errs, w0))))"

text \<open>
  The loop \<open>for i := range changes\<close>. The changes are pointers, so the \<open>Error\<close> written
  in an iteration is seen by the caller: the loop returns the changes as it leaves them.
\<close>

fun rename_loop ::
  "'w sys \<Rightarrow> nat \<Rightarrow> Change list \<Rightarrow> nat list \<times> 'w \<Rightarrow> Change list \<times> nat list \<times> 'w" where
  "rename_loop sys i [] st = ([], st)"
| "rename_loop sys i (change # changes) st =
     (case rename_iteration sys i change st of (change', errs', w') \<Rightarrow>
      (case rename_loop sys (Suc i) changes (errs', w') of (changes', st') \<Rightarrow>
         (change' # changes', st')))"

text \<open>
  \<open>rename\<close> appends to the package variable \<open>errs\<close> (line 33) and returns it: the
  variable is an argument here, and the list returned is both the result and the
  variable's new value.
\<close>

definition rename :: "'w sys \<Rightarrow> Change list \<Rightarrow> nat list \<times> 'w \<Rightarrow> Change list \<times> nat list \<times> 'w" where
  "rename sys changes st = rename_loop sys 0 changes st"

section \<open>GetOutput\<close>

text \<open>
  \<open>GetOutput\<close> (\<open>json.go\<close>, lines 24 to 47). \<open>config.Get()\<close> is the configuration of the
  run: the working directory, the date (already formatted) and whether the run executes.
\<close>

definition GetOutput ::
  "'w sys \<Rightarrow> Config \<Rightarrow> Change list option \<Rightarrow> nat list option \<Rightarrow> os_error + bytes" where
  "GetOutput sys conf changes errs =
     (let out = \<lparr>Conflicts = GetConflicts sys, WorkingDir_out = WorkingDir conf,
                 Date_out = Date conf, Changes = changes, Errors = errs,
                 DryRun = (\<not> Exec conf)\<rparr>;
          out = (if Changes out = None then out\<lparr>Changes := Some []\<rparr> else out)
      in case json_MarshalIndent out of
           Inl err \<Rightarrow> Inl err
         | Inr b \<Rightarrow> Inr b)"

section \<open>backupChanges\<close>

text \<open>
  Lines 109 to 118 of \<open>backupChanges\<close> and, word for word, lines 292 to 297 of \<open>Undo\<close>:
  the name of the backup file of a working directory.
\<close>

definition backup_filename :: "'w sys \<Rightarrow> string \<Rightarrow> string" where
  "backup_filename sys cwd =
     (let workingDir = strings_ReplaceAll cwd (Separator sys) ''_'';
          workingDir = (if GOOS_windows sys then strings_ReplaceAll workingDir '':'' ''_''
                        else workingDir)
      in workingDir @ ''.json'')"

text \<open>
  The loop of lines 145 to 151, \<open>for i := len(successfulChanges) - 1; i >= 0; i--\<close>, on
  the copy of the slice: the first argument is \<open>i + 1\<close>.
\<close>

fun remove_errored :: "nat \<Rightarrow> Change list \<Rightarrow> Change list" where
  "remove_errored 0 successfulChanges = successfulChanges"
| "remove_errored (Suc i) successfulChanges =
     remove_errored i
       (if Error (successfulChanges ! i) \<noteq> None
        then take i successfulChanges @ drop (Suc i) successfulChanges
        else successfulChanges)"

text \<open>
  \<open>bufio.Writer\<close>: \<open>Write\<close> keeps the bytes, \<open>Flush\<close> hands what is kept to the file in
  one write. (A slice beyond the writer's 4096 bytes goes to the file at once; the file
  holds the same bytes after \<open>Flush\<close>.)
\<close>

record Writer =
  wr :: string
  buf :: bytes

definition bufio_Write :: "Writer \<Rightarrow> bytes \<Rightarrow> os_error option \<times> Writer" where
  "bufio_Write writer b = (None, writer\<lparr>buf := buf writer @ b\<rparr>)"

definition bufio_Flush :: "'w sys \<Rightarrow> Writer \<Rightarrow> 'w \<Rightarrow> os_error option \<times> 'w" where
  "bufio_Flush sys writer w = file_Write sys (wr writer) (buf writer) w"

text \<open>
  \<open>backupChanges\<close> (lines 108 to 166). The deferred \<open>Close\<close> runs on every return after
  \<open>os.Create\<close>; it assigns its error to the local \<open>err\<close>, which the unnamed result never
  reads, so the value returned is the one of the \<open>return\<close> statement. \<open>rename.go\<close> calls
  \<open>GetOutput\<close> with the changes alone: the error indices are the nil slice here.
\<close>

definition backupChanges ::
  "'w sys \<Rightarrow> Config \<Rightarrow> Change list \<Rightarrow> string \<Rightarrow> 'w \<Rightarrow> os_error option \<times> 'w" where
  "backupChanges sys conf changes cwd w =
     (let filename = backup_filename sys cwd
      in case xdg_DataFile sys (filepath_Join sys [''f2'', ''backups'', filename]) w of
           (Inl err, w1) \<Rightarrow> (Some err, w1)
         | (Inr backupFilePath, w1) \<Rightarrow>
             (case os_Create sys backupFilePath w1 of
                (Inl err, w2) \<Rightarrow> (Some err, w2)
              | (Inr backupFile, w2) \<Rightarrow>
                  (let successfulChanges = remove_errored (length changes) changes;
                       (err, w3) =
                         (case GetOutput sys conf (Some successfulChanges) None of
                            Inl err \<Rightarrow> (Some err, w2)
                          | Inr b \<Rightarrow>
                              (case bufio_Write \<lparr>wr = backupFile, buf = []\<rparr> b of
                                 (Some err, writer) \<Rightarrow> (Some err, w2)
                               | (None, writer) \<Rightarrow> bufio_Flush sys writer w2))
                   in (err, snd (file_Close sys backupFile w3)))))"

section \<open>commit, Rename and Undo\<close>

text \<open>The verbose lines of \<open>commit\<close> (lines 177 to 202).\<close>

definition verbose_line :: "'w sys \<Rightarrow> Change \<Rightarrow> report" where
  "verbose_line sys change =
     (let sourcePath = filepath_Join sys [BaseDir change, Source change];
          targetPath = filepath_Join sys [BaseDir change, Target change]
      in if Error change \<noteq> None then FailedToRename sourcePath targetPath
         else Renamed sourcePath targetPath)"

text \<open>
  \<open>commit\<close> (lines 171 to 220): the result of \<open>rename\<close> is assigned to the package
  variable \<open>errs\<close> and returned. The list of changes is returned as the caller's slice
  holds it afterwards.
\<close>

definition commit ::
  "'w sys \<Rightarrow> Config \<Rightarrow> Change list \<Rightarrow> nat list \<times> 'w \<Rightarrow> Change list \<times> nat list \<times> 'w" where
  "commit sys conf fileChanges st =
     (case rename sys fileChanges st of (fileChanges, errs, w) \<Rightarrow>
      (let w = (if Verbose conf
                then fold (\<lambda>change. print sys (verbose_line sys change)) fileChanges w
                else w);
           w = (if \<not> Revert conf
                then (case backupChanges sys conf fileChanges (WorkingDir conf) w of
                        (Some err, w') \<Rightarrow> print sys (BackupFailed err) w'
                      | (None, w') \<Rightarrow> w')
                else w);
           fileChanges = (if length errs > 0 then SliceStable sys fileChanges
                          else fileChanges)
       in (fileChanges, errs, w)))"




section \<open>find: searchPaths and walk\<close>


text \<open>
  Lines 185 to 195 of \<open>walk\<close>: every directory among the entries of \<open>dir\<close> is read into
  \<open>currentLevel\<close>.
\<close>

fun walk_entries ::
  "'w sys \<Rightarrow> 'w \<Rightarrow> string \<Rightarrow> DirEntry list \<Rightarrow> Collection \<Rightarrow> os_error + Collection" where
  "walk_entries sys w dir [] currentLevel = Inr currentLevel"
| "walk_entries sys w dir (entry # dirContents) currentLevel =
     (if IsDir entry
      then (let fp = filepath_Join sys [dir, Name entry]
            in case os_ReadDir sys fp w of
                 Inl err \<Rightarrow> Inl err
               | Inr dirEntry \<Rightarrow>
                   walk_entries sys w dir dirContents (AList.update fp dirEntry currentLevel))
      else walk_entries sys w dir dirContents currentLevel)"







section \<open>A POSIX world\<close>

text \<open>
  One instance of the environment, to run the program on: a case sensitive POSIX
  filesystem. A path names a file by its cleaned spelling (no links, no working
  directory), a file is its bytes, and the files of the XDG data directory are kept
  apart from the tree that is renamed.
\<close>

datatype node = File string | Directory

record world =
  tree :: "(string \<times> node) list"
  data :: "(string \<times> bytes) list"
  data_home :: string
  data_writable :: bool
  clock :: int
  terminal :: "report list"

subsection \<open>path/filepath on Unix\<close>

fun split_slash :: "string \<Rightarrow> string list" where
  "split_slash [] = [[]]"
| "split_slash (c # s) =
     (if c = CHR ''/'' then [] # split_slash s
      else (case split_slash s of [] \<Rightarrow> [[c]] | e # es \<Rightarrow> (c # e) # es))"

fun join_slash :: "string list \<Rightarrow> string" where
  "join_slash [] = []"
| "join_slash [e] = e"
| "join_slash (e # es) = e @ ''/'' @ join_slash es"

text \<open>
  The loop of \<open>filepath.Clean\<close> over the elements of a path: an empty element and \<open>.\<close>
  are dropped, \<open>..\<close> removes the element before it when there is one to remove, is
  dropped at the root, and is kept otherwise.
\<close>

fun clean_elems :: "bool \<Rightarrow> string list \<Rightarrow> string list \<Rightarrow> string list" where
  "clean_elems rooted [] out = out"
| "clean_elems rooted (e # es) out =
     (if e = [] \<or> e = ''.'' then clean_elems rooted es out
      else if e = ''..''
        then (if out \<noteq> [] \<and> last out \<noteq> ''..'' then clean_elems rooted es (butlast out)
              else if rooted then clean_elems rooted es out
              else clean_elems rooted es (out @ [''..'']))
      else clean_elems rooted es (out @ [e]))"

definition render_path :: "bool \<Rightarrow> string list \<Rightarrow> string" where
  "render_path rooted out =
     (if rooted then CHR ''/'' # join_slash out
      else if out = [] then ''.'' else join_slash out)"

definition posix_Clean :: "string \<Rightarrow> string" where
  "posix_Clean path =
     (if path = [] then ''.''
      else (let rooted = (hd path = CHR ''/'')
            in render_path rooted (clean_elems rooted (split_slash path) [])))"

definition posix_Join :: "string list \<Rightarrow> string" where
  "posix_Join elem =
     (case dropWhile (\<lambda>e. e = []) elem of
        [] \<Rightarrow> []
      | e # es \<Rightarrow> posix_Clean (join_slash (e # es)))"

definition posix_Dir :: "string \<Rightarrow> string" where
  "posix_Dir path = posix_Clean (rev (dropWhile (\<lambda>c. c \<noteq> CHR ''/'') (rev path)))"

definition posix_Base :: "string \<Rightarrow> string" where
  "posix_Base path = last (split_slash path)"

text \<open>\<open>strings.EqualFold\<close> on ASCII: the letters A to Z are folded, every other byte is itself.\<close>

definition fold_char :: "char \<Rightarrow> char" where
  "fold_char c =
     (case map_of (zip ''ABCDEFGHIJKLMNOPQRSTUVWXYZ'' ''abcdefghijklmnopqrstuvwxyz'') c of
        None \<Rightarrow> c
      | Some l \<Rightarrow> l)"

definition ascii_EqualFold :: "string \<Rightarrow> string \<Rightarrow> bool" where
  "ascii_EqualFold s t = (map fold_char s = map fold_char t)"

subsection \<open>The tree\<close>

text \<open>The chain of directories down to a path, the topmost first.\<close>

fun dir_chain :: "nat \<Rightarrow> string \<Rightarrow> string list" where
  "dir_chain 0 p = [p]"
| "dir_chain (Suc n) p =
     (if posix_Dir p = p then [p] else dir_chain n (posix_Dir p) @ [p])"

fun mkdirs :: "string list \<Rightarrow> (string \<times> node) list \<Rightarrow> os_error + (string \<times> node) list" where
  "mkdirs [] t = Inr t"
| "mkdirs (p # ps) t =
     (case map_of t p of
        None \<Rightarrow> mkdirs ps (AList.update p Directory t)
      | Some Directory \<Rightarrow> mkdirs ps t
      | Some (File c) \<Rightarrow> Inl ENOTDIR)"

text \<open>\<open>os.MkdirAll\<close>: the directory and every missing parent; a file in the way is an error.\<close>

definition posix_MkdirAll :: "string \<Rightarrow> world \<Rightarrow> os_error option \<times> world" where
  "posix_MkdirAll path w =
     (case mkdirs (dir_chain (length path) (posix_Clean path)) (tree w) of
        Inl err \<Rightarrow> (Some err, w)
      | Inr t \<Rightarrow> (None, w\<lparr>tree := t\<rparr>))"

definition inside :: "string \<Rightarrow> string \<Rightarrow> bool" where
  "inside d p = prefix (d @ ''/'') p"

definition move_subtree :: "string \<Rightarrow> string \<Rightarrow> (string \<times> node) list \<Rightarrow> (string \<times> node) list" where
  "move_subtree old new t =
     map (\<lambda>(p, n). if p = old then (new, n)
                   else if inside old p then (new @ drop (length old) p, n)
                   else (p, n))
       (AList.delete new t)"

text \<open>
  The error of a path that is not in the tree: \<open>ENOTDIR\<close> when a file stands where one
  of its directories should be, \<open>ENOENT\<close> otherwise.
\<close>

fun is_file :: "node option \<Rightarrow> bool" where
  "is_file (Some (File content)) = True"
| "is_file other = False"

definition missing :: "(string \<times> node) list \<Rightarrow> string \<Rightarrow> os_error" where
  "missing t path =
     (if list_ex (\<lambda>dir. is_file (map_of t dir)) (butlast (dir_chain (length path) path))
      then ENOTDIR else ENOENT)"

text \<open>
  \<open>os.Rename\<close>: the source must exist and the parent of the target must be a
  directory. Go refuses a target that is an existing directory (\<open>EEXIST\<close>) before it
  calls \<open>rename(2)\<close>; a file replaces a file, and a directory cannot replace a file or
  move into itself.
\<close>

definition posix_Rename :: "string \<Rightarrow> string \<Rightarrow> world \<Rightarrow> os_error option \<times> world" where
  "posix_Rename old new w =
     (let t = tree w
      in case map_of t old of
           None \<Rightarrow> (Some (missing t old), w)
         | Some n \<Rightarrow>
             (case map_of t (posix_Dir new) of
                None \<Rightarrow> (Some (missing t (posix_Dir new)), w)
              | Some (File c) \<Rightarrow> (Some ENOTDIR, w)
              | Some Directory \<Rightarrow>
                  if old = new then (None, w)
                  else
                    (case map_of t new of
                       Some Directory \<Rightarrow> (Some EEXIST, w)
                     | Some (File c') \<Rightarrow>
                         (case n of
                            File c \<Rightarrow>
                              (None, w\<lparr>tree := AList.update new (File c) (AList.delete old t)\<rparr>)
                          | Directory \<Rightarrow> (Some ENOTDIR, w))
                     | None \<Rightarrow>
                         (case n of
                            File c \<Rightarrow>
                              (None, w\<lparr>tree := AList.update new (File c) (AList.delete old t)\<rparr>)
                          | Directory \<Rightarrow>
                              if old = ''/'' \<or> old = ''.'' \<or> inside old new
                              then (Some EINVAL, w)
                              else if list_ex (\<lambda>(p, n). inside new p) t
                                then (Some ENOTEMPTY, w)
                              else (None, w\<lparr>tree := move_subtree old new t\<rparr>)))))"

definition posix_Stat :: "string \<Rightarrow> world \<Rightarrow> os_error + DirEntry" where
  "posix_Stat path w =
     (case map_of (tree w) (posix_Clean path) of
        None \<Rightarrow> Inl (missing (tree w) (posix_Clean path))
      | Some n \<Rightarrow> Inr \<lparr>Name = posix_Base (posix_Clean path), IsDir = (n = Directory)\<rparr>)"

text \<open>\<open>os.ReadDir\<close>: the entries of the directory, sorted by name.\<close>

definition posix_ReadDir :: "string \<Rightarrow> world \<Rightarrow> os_error + DirEntry list" where
  "posix_ReadDir path w =
     (let d = posix_Clean path
      in case map_of (tree w) d of
           None \<Rightarrow> Inl (missing (tree w) d)
         | Some (File c) \<Rightarrow> Inl ENOTDIR
         | Some Directory \<Rightarrow>
             Inr (sort_key Name
                    (map (\<lambda>(p, n). \<lparr>Name = posix_Base p, IsDir = (n = Directory)\<rparr>)
                       (filter (\<lambda>(p, n). posix_Dir p = d \<and> p \<noteq> d) (tree w)))))"

subsection \<open>The XDG data directory\<close>

definition posix_DataFile :: "string \<Rightarrow> world \<Rightarrow> (os_error + string) \<times> world" where
  "posix_DataFile relPath w =
     (if data_writable w then (Inr (posix_Join [data_home w, relPath]), w)
      else (Inl EACCES, w))"

definition posix_SearchDataFile :: "string \<Rightarrow> world \<Rightarrow> os_error + string" where
  "posix_SearchDataFile relPath w =
     (case map_of (data w) (posix_Join [data_home w, relPath]) of
        None \<Rightarrow> Inl ENOENT
      | Some b \<Rightarrow> Inr (posix_Join [data_home w, relPath]))"

text \<open>\<open>os.Create\<close> opens with \<open>O_TRUNC\<close>: the file is empty afterwards.\<close>

definition posix_Create :: "string \<Rightarrow> world \<Rightarrow> (os_error + string) \<times> world" where
  "posix_Create name w =
     (if data_writable w then (Inr name, w\<lparr>data := AList.update name [] (data w)\<rparr>)
      else (Inl EACCES, w))"

definition posix_Write :: "string \<Rightarrow> bytes \<Rightarrow> world \<Rightarrow> os_error option \<times> world" where
  "posix_Write name b w =
     (case map_of (data w) name of
        None \<Rightarrow> (Some ENOENT, w)
      | Some old \<Rightarrow> (None, w\<lparr>data := AList.update name (old @ b) (data w)\<rparr>))"

definition posix_ReadFile :: "string \<Rightarrow> world \<Rightarrow> os_error + bytes" where
  "posix_ReadFile name w =
     (case map_of (data w) name of None \<Rightarrow> Inl ENOENT | Some b \<Rightarrow> Inr b)"

definition posix_Remove :: "string \<Rightarrow> world \<Rightarrow> os_error option \<times> world" where
  "posix_Remove name w =
     (case map_of (data w) name of
        None \<Rightarrow> (Some ENOENT, w)
      | Some b \<Rightarrow>
          if data_writable w then (None, w\<lparr>data := AList.delete name (data w)\<rparr>)
          else (Some EACCES, w))"

subsection \<open>json.Unmarshal into an Output\<close>

definition decode_string :: "json option \<Rightarrow> os_error + string" where
  "decode_string v =
     (case v of
        None \<Rightarrow> Inr []
      | Some JNull \<Rightarrow> Inr []
      | Some (JString s) \<Rightarrow> Inr s
      | Some _ \<Rightarrow> Inl UnmarshalTypeError)"

definition decode_Change :: "json \<Rightarrow> os_error + Change" where
  "decode_Change v =
     (case v of
        JObject ms \<Rightarrow>
          (case (decode_string (map_of (rev ms) ''source''),
                 decode_string (map_of (rev ms) ''target''),
                 decode_string (map_of (rev ms) ''base_dir'')) of
             (Inr s, Inr t, Inr b) \<Rightarrow>
               Inr \<lparr>BaseDir = b, Source = s, Target = t, Error = None\<rparr>
           | _ \<Rightarrow> Inl UnmarshalTypeError)
      | _ \<Rightarrow> Inl UnmarshalTypeError)"

fun decode_Changes :: "json list \<Rightarrow> os_error + Change list" where
  "decode_Changes [] = Inr []"
| "decode_Changes (v # vs) =
     (case decode_Change v of
        Inl err \<Rightarrow> Inl err
      | Inr c \<Rightarrow> (case decode_Changes vs of Inl err \<Rightarrow> Inl err | Inr cs \<Rightarrow> Inr (c # cs)))"

text \<open>
  \<open>json.Unmarshal\<close> into an \<open>Output\<close>. The document \<open>null\<close> leaves the \<open>Output\<close> as it
  is (all fields zero); any other document that is no object, and a member of the wrong
  type, is an \<open>UnmarshalTypeError\<close>; a file that does not hold exactly one document is
  a syntax error. The last of several members of one name counts.
\<close>

definition decode_bool :: "json option \<Rightarrow> os_error + bool" where
  "decode_bool v =
     (case v of
        None \<Rightarrow> Inr False
      | Some JNull \<Rightarrow> Inr False
      | Some (JBool b) \<Rightarrow> Inr b
      | Some _ \<Rightarrow> Inl UnmarshalTypeError)"

fun decode_indices :: "json list \<Rightarrow> os_error + nat list" where
  "decode_indices [] = Inr []"
| "decode_indices (JNumber n # vs) =
     (case decode_indices vs of Inl err \<Rightarrow> Inl err | Inr ns \<Rightarrow> Inr (nat n # ns))"
| "decode_indices (v # vs) = Inl UnmarshalTypeError"

definition decode_changes_member :: "json option \<Rightarrow> os_error + Change list option" where
  "decode_changes_member v =
     (case v of
        None \<Rightarrow> Inr None
      | Some JNull \<Rightarrow> Inr None
      | Some (JArray vs) \<Rightarrow>
          (case decode_Changes vs of Inl err \<Rightarrow> Inl err | Inr cs \<Rightarrow> Inr (Some cs))
      | Some _ \<Rightarrow> Inl UnmarshalTypeError)"

definition decode_errors_member :: "json option \<Rightarrow> os_error + nat list option" where
  "decode_errors_member v =
     (case v of
        None \<Rightarrow> Inr None
      | Some JNull \<Rightarrow> Inr None
      | Some (JArray vs) \<Rightarrow>
          (case decode_indices vs of Inl err \<Rightarrow> Inl err | Inr ns \<Rightarrow> Inr (Some ns))
      | Some _ \<Rightarrow> Inl UnmarshalTypeError)"

definition decode_conflicts_member :: "json option \<Rightarrow> os_error + (string \<times> json) list" where
  "decode_conflicts_member v =
     (case v of
        None \<Rightarrow> Inr []
      | Some JNull \<Rightarrow> Inr []
      | Some (JObject ms) \<Rightarrow> Inr ms
      | Some _ \<Rightarrow> Inl UnmarshalTypeError)"

definition posix_Unmarshal :: "bytes \<Rightarrow> os_error + Output" where
  "posix_Unmarshal b =
     (case b of
        [JNull] \<Rightarrow>
          Inr \<lparr>Conflicts = [], WorkingDir_out = [], Date_out = [], Changes = None,
               Errors = None, DryRun = False\<rparr>
      | [JObject ms] \<Rightarrow>
          (case (decode_conflicts_member (map_of (rev ms) ''conflicts''),
                 decode_string (map_of (rev ms) ''working_dir''),
                 decode_string (map_of (rev ms) ''date''),
                 decode_changes_member (map_of (rev ms) ''changes''),
                 decode_errors_member (map_of (rev ms) ''errors''),
                 decode_bool (map_of (rev ms) ''dry_run'')) of
             (Inr cf, Inr wd, Inr d, Inr cs, Inr es, Inr dr) \<Rightarrow>
               Inr \<lparr>Conflicts = cf, WorkingDir_out = wd, Date_out = d, Changes = cs,
                    Errors = es, DryRun = dr\<rparr>
           | _ \<Rightarrow> Inl UnmarshalTypeError)
      | [v] \<Rightarrow> Inl UnmarshalTypeError
      | _ \<Rightarrow> Inl SyntaxError)"

subsection \<open>The instance\<close>

text \<open>
  The two functions of the repository that are not under \<open>src/\<close> and reorder the changes
  stay arguments. A name is hidden when it starts with a dot (\<open>dotCharacter\<close>).
\<close>

definition posix ::
  "(Change list \<Rightarrow> bool \<Rightarrow> Change list) \<Rightarrow> (Change list \<Rightarrow> Change list) \<Rightarrow> world sys" where
  "posix filesBeforeDirs sliceStable =
     \<lparr>GOOS_windows = False,
      Separator = ''/'',
      filepath_Join = posix_Join,
      filepath_Dir = posix_Dir,
      filepath_Clean = posix_Clean,
      EqualFold = ascii_EqualFold,
      UnixNano = (\<lambda>w. (clock w, w\<lparr>clock := clock w + 1\<rparr>)),
      os_MkdirAll = posix_MkdirAll,
      os_Rename = posix_Rename,
      os_Remove = posix_Remove,
      os_ReadFile = posix_ReadFile,
      os_Create = posix_Create,
      file_Write = posix_Write,
      file_Close = (\<lambda>name w. (None, w)),
      xdg_DataFile = posix_DataFile,
      xdg_SearchDataFile = posix_SearchDataFile,
      json_Unmarshal = posix_Unmarshal,
      GetConflicts = [],
      print = (\<lambda>r w. w\<lparr>terminal := terminal w @ [r]\<rparr>),
      FilesBeforeDirs = filesBeforeDirs,
      SliceStable = sliceStable,
      os_Stat = posix_Stat,
      os_ReadDir = posix_ReadDir,
      isHidden = (\<lambda>name baseDir w. Inr (take 1 name = ''.''))\<rparr>"

section \<open>The specification's reading of one change\<close>

text \<open>
  Section 4.2 of the specification, steps 1 to 3, as one function: what the filesystem
  is asked to do for one change, and the error that ends it. \<open>rename_iteration\<close> is
  compared with it below; a change fails when this returns an error.
\<close>

definition create_dirs :: "'w sys \<Rightarrow> Change \<Rightarrow> 'w \<Rightarrow> os_error option \<times> 'w" where
  "create_dirs sys change w =
     (if target_has_separator sys (Target change)
      then os_MkdirAll sys
             (filepath_Join sys [BaseDir change, filepath_Dir sys (Target change)]) w
      else (None, w))"

definition attempt :: "'w sys \<Rightarrow> Change \<Rightarrow> 'w \<Rightarrow> os_error option \<times> 'w" where
  "attempt sys change w =
     (let sourcePath = filepath_Join sys [BaseDir change, Source change];
          targetPath = filepath_Join sys [BaseDir change, Target change]
      in if sourcePath = targetPath then (None, w)
         else if EqualFold sys sourcePath targetPath
         then (case UnixNano sys w of (ns, w0) \<Rightarrow>
                (let intermediate = filepath_Join sys
                       [BaseDir change, ''__'' @ Sprintf_d ns @ ''__'' @ Target change]
                 in case create_dirs sys change w0 of
                      (Some e, w1) \<Rightarrow> (Some e, w1)
                    | (None, w1) \<Rightarrow>
                        (case os_Rename sys sourcePath intermediate w1 of
                           (Some e, w2) \<Rightarrow> (Some e, w2)
                         | (None, w2) \<Rightarrow> os_Rename sys intermediate targetPath w2)))
         else (case create_dirs sys change w of
                 (Some e, w1) \<Rightarrow> (Some e, w1)
               | (None, w1) \<Rightarrow> os_Rename sys sourcePath targetPath w1))"



section \<open>The intermediate name\<close>




section \<open>Batches of plain file renames\<close>








section \<open>The specification's reading of Undo\<close>



section \<open>The backup file in the POSIX world\<close>

text \<open>Where \<open>xdg.DataFile\<close> puts the backup file of a working directory.\<close>

definition backup_path :: "world sys \<Rightarrow> world \<Rightarrow> string \<Rightarrow> string" where
  "backup_path sys w cwd =
     posix_Join [data_home w, filepath_Join sys [''f2'', ''backups'', backup_filename sys cwd]]"

text \<open>Two worlds with the same data directory.\<close>

definition same_data :: "world \<Rightarrow> world \<Rightarrow> bool" where
  "same_data w w' =
     (data w' = data w \<and> data_home w' = data_home w \<and> data_writable w' = data_writable w)"

section \<open>A small world to run the program on\<close>

definition example_world :: world where
  "example_world =
     \<lparr>tree = [(''/'', Directory), (''/w'', Directory), (''/w/a.txt'', File ''alpha''),
              (''/w/b.txt'', File ''beta'')],
      data = [], data_home = ''/home/u/.local/share'', data_writable = True,
      clock = 1700000000000000000, terminal = []\<rparr>"

definition example_conf :: Config where
  "example_conf =
     \<lparr>Verbose = False, Revert = False, IncludeDir = False, Interactive = False,
      Exec = True, JSON = False, WorkingDir = ''/w'', Date = ''2024-01-01T00:00:00Z''\<rparr>"

abbreviation example_sys :: "world sys" where
  "example_sys \<equiv> posix (\<lambda>changes revert. changes) (\<lambda>changes. changes)"


definition mk_change :: "string \<Rightarrow> string \<Rightarrow> string \<Rightarrow> Change" where
  "mk_change dir source target = \<lparr>BaseDir = dir, Source = source, Target = target, Error = None\<rparr>"


section \<open>Properties of rename\<close>

lemma rename_loop_length: "length (fst (rename_loop sys i cs st)) = length cs"
proof (induction cs arbitrary: i st)
  case Nil
  show ?case by simp
next
  case (Cons c cs)
  obtain c' errs' w' where it: "rename_iteration sys i c st = (c', errs', w')"
    by (cases "rename_iteration sys i c st") auto
  obtain cs' st' where lp: "rename_loop sys (Suc i) cs (errs', w') = (cs', st')"
    by (cases "rename_loop sys (Suc i) cs (errs', w')") auto
  from Cons.IH [of "Suc i" "(errs', w')"] lp have "length cs' = length cs" by simp
  with it lp show ?case by simp
qed

lemma rename_iteration_attempt:
  "rename_iteration sys i change (errs, w) =
     (case attempt sys change w of
        (None, w') \<Rightarrow> (change, errs, w')
      | (Some e, w') \<Rightarrow> (change\<lparr>Error := Some e\<rparr>, errs @ [i], w'))"
  by (auto simp: rename_iteration_def attempt_def create_dirs_def rename_steps_def Let_def
      split: prod.splits option.splits if_splits)

lemma rename_loop_append:
  "rename_loop sys i (xs @ ys) st =
     (case rename_loop sys i xs st of (xs', st1) \<Rightarrow>
      (case rename_loop sys (i + length xs) ys st1 of (ys', st2) \<Rightarrow> (xs' @ ys', st2)))"
proof (induction xs arbitrary: i st)
  case Nil
  show ?case by (simp split: prod.splits)
next
  case (Cons x xs)
  show ?case
    by (simp add: Cons.IH split: prod.splits)
qed

lemma rename_loop_errs:
  "rename_loop sys i cs (errs, w) = (cs', errs', w') \<Longrightarrow>
     \<exists>new. errs' = errs @ new \<and> set new \<subseteq> {i..<i + length cs}"
proof (induction cs arbitrary: i errs w cs' errs' w')
  case Nil
  then show ?case by simp
next
  case (Cons c cs)
  obtain c1 e1 w1 where it: "rename_iteration sys i c (errs, w) = (c1, e1, w1)"
    by (cases "rename_iteration sys i c (errs, w)") auto
  obtain cs2 where lp: "rename_loop sys (Suc i) cs (e1, w1) = (cs2, errs', w')"
    using Cons.prems it by (auto split: prod.splits)
  from it have "e1 = errs \<or> e1 = errs @ [i]"
    by (auto simp: rename_iteration_attempt split: prod.splits option.splits)
  moreover from Cons.IH [OF lp] obtain new
    where "errs' = e1 @ new" "set new \<subseteq> {Suc i..<Suc i + length cs}"
    by blast
  ultimately show ?case
    by (elim disjE) (rule exI [of _ new], auto | rule exI [of _ "i # new"], auto)+
qed

text \<open>
  C2. \<open>rename\<close> is fail-soft. When the change at a position fails (its directory
  creation or one of its renames returns an error \<open>e\<close>), the error is stored in that
  change's \<open>Error\<close>, the position is appended to the failure list as it stood, and the
  loop goes on over every later change from the state the failure left: the result of
  the whole list is the result of that continuation, and keeps the appended position.
\<close>

theorem rename_fail_soft:
  assumes "rename sys (before @ c # after) (errs, w) = (changes', errs', w')"
    and "rename sys before (errs, w) = (before', errs1, w1)"
    and "attempt sys c w1 = (Some e, w2)"
  shows "\<exists>after'. changes' = before' @ c\<lparr>Error := Some e\<rparr> # after'
           \<and> length after' = length after
           \<and> rename_loop sys (Suc (length before)) after (errs1 @ [length before], w2)
               = (after', errs', w')
           \<and> prefix (errs1 @ [length before]) errs'"
proof -
  obtain after' st' where lp:
    "rename_loop sys (Suc (length before)) after (errs1 @ [length before], w2) = (after', st')"
    by (cases "rename_loop sys (Suc (length before)) after (errs1 @ [length before], w2)") auto
  from assms(2) have b: "rename_loop sys 0 before (errs, w) = (before', errs1, w1)"
    by (simp add: rename_def)
  have it: "rename_iteration sys (length before) c (errs1, w1)
      = (c\<lparr>Error := Some e\<rparr>, errs1 @ [length before], w2)"
    by (simp add: rename_iteration_attempt assms(3))
  have "rename_loop sys 0 (before @ c # after) (errs, w)
      = (before' @ c\<lparr>Error := Some e\<rparr> # after', st')"
    by (simp add: rename_loop_append b it lp)
  with assms(1) have eq: "changes' = before' @ c\<lparr>Error := Some e\<rparr> # after'" "st' = (errs', w')"
    by (simp_all add: rename_def)
  from lp eq have lp':
    "rename_loop sys (Suc (length before)) after (errs1 @ [length before], w2) = (after', errs', w')"
    by simp
  from rename_loop_errs [OF lp'] have "prefix (errs1 @ [length before]) errs'"
    by (auto simp: prefix_def)
  moreover
  from rename_loop_length [of sys "Suc (length before)" after "(errs1 @ [length before], w2)"] lp
  have "length after' = length after" by simp
  ultimately show ?thesis using eq lp' by blast
qed

theorem rename_fail_soft_witness:
  "rename example_sys
       ([mk_change ''/w'' ''b.txt'' ''c.txt''] @ mk_change ''/w'' ''missing.txt'' ''x.txt''
          # [mk_change ''/w'' ''a.txt'' ''d.txt''])
       ([], example_world)
     = ([mk_change ''/w'' ''b.txt'' ''c.txt'',
         (mk_change ''/w'' ''missing.txt'' ''x.txt'')\<lparr>Error := Some ENOENT\<rparr>,
         mk_change ''/w'' ''a.txt'' ''d.txt''],
        [1],
        example_world\<lparr>tree := [(''/'', Directory), (''/w'', Directory),
          (''/w/c.txt'', File ''beta''), (''/w/d.txt'', File ''alpha'')]\<rparr>)
   \<and> rename example_sys [mk_change ''/w'' ''b.txt'' ''c.txt''] ([], example_world)
     = ([mk_change ''/w'' ''b.txt'' ''c.txt''], [],
        example_world\<lparr>tree := [(''/'', Directory), (''/w'', Directory),
          (''/w/a.txt'', File ''alpha''), (''/w/c.txt'', File ''beta'')]\<rparr>)
   \<and> attempt example_sys (mk_change ''/w'' ''missing.txt'' ''x.txt'')
        (example_world\<lparr>tree := [(''/'', Directory), (''/w'', Directory),
          (''/w/a.txt'', File ''alpha''), (''/w/c.txt'', File ''beta'')]\<rparr>)
     = (Some ENOENT,
        example_world\<lparr>tree := [(''/'', Directory), (''/w'', Directory),
          (''/w/a.txt'', File ''alpha''), (''/w/c.txt'', File ''beta'')]\<rparr>)
   \<and> (\<exists>after'.
        [mk_change ''/w'' ''b.txt'' ''c.txt'',
         (mk_change ''/w'' ''missing.txt'' ''x.txt'')\<lparr>Error := Some ENOENT\<rparr>,
         mk_change ''/w'' ''a.txt'' ''d.txt'']
        = [mk_change ''/w'' ''b.txt'' ''c.txt'']
            @ (mk_change ''/w'' ''missing.txt'' ''x.txt'')\<lparr>Error := Some ENOENT\<rparr> # after'
        \<and> length after' = length [mk_change ''/w'' ''a.txt'' ''d.txt'']
        \<and> rename_loop example_sys (Suc (length [mk_change ''/w'' ''b.txt'' ''c.txt'']))
             [mk_change ''/w'' ''a.txt'' ''d.txt'']
             ([] @ [length [mk_change ''/w'' ''b.txt'' ''c.txt'']],
              example_world\<lparr>tree := [(''/'', Directory), (''/w'', Directory),
                (''/w/a.txt'', File ''alpha''), (''/w/c.txt'', File ''beta'')]\<rparr>)
            = (after', [1],
               example_world\<lparr>tree := [(''/'', Directory), (''/w'', Directory),
                 (''/w/c.txt'', File ''beta''), (''/w/d.txt'', File ''alpha'')]\<rparr>)
        \<and> prefix ([] @ [length [mk_change ''/w'' ''b.txt'' ''c.txt'']]) [1])"
  (is "?H1 \<and> ?H2 \<and> ?H3 \<and> ?C")
proof -
  have h1: ?H1 by code_simp
  have h2: ?H2 by code_simp
  have h3: ?H3 by code_simp
  from rename_fail_soft [OF h1 h2 h3] have ?C .
  with h1 h2 h3 show ?thesis by (intro conjI)
qed



text \<open>
  C3. The failure list is the package variable \<open>errs\<close>, which no invocation empties.
  Two commits in one process: the first fails at index 0; the only change of the second
  is renamed (its \<open>Error\<close> stays \<open>nil\<close> and the file is at its target), and the second
  commit still returns index 0.
\<close>

theorem stale_failure_index:
  "(case commit example_sys example_conf [mk_change ''/w'' ''missing.txt'' ''x.txt'']
           ([], example_world) of
      (changes1, errs1, w1) \<Rightarrow>
        (case commit example_sys example_conf [mk_change ''/w'' ''a.txt'' ''c.txt''] (errs1, w1) of
           (changes2, errs2, w2) \<Rightarrow>
             errs1 = [0] \<and> map Error changes2 = [None]
             \<and> map_of (tree w2) ''/w/c.txt'' = Some (File ''alpha'')
             \<and> errs2 = [0]))"
  by code_simp

section \<open>Properties of GetOutput and backupChanges\<close>

text \<open>
  C9. For an empty batch (the nil slice, or the empty one) the document has no
  \<open>changes\<close> member: \<open>GetOutput\<close> turns the nil slice into an empty one, and the
  \<open>omitempty\<close> of the field's tag then leaves the member out.
\<close>

theorem empty_changes_member_omitted:
  "(\<exists>ms. GetOutput sys conf None errs = Inr [JObject ms] \<and> map_of ms ''changes'' = None)
   \<and> (\<exists>ms. GetOutput sys conf (Some []) errs = Inr [JObject ms] \<and> map_of ms ''changes'' = None)"
  by (cases errs; cases "the errs")
     (auto simp: GetOutput_def json_MarshalIndent_def slice_member_def Let_def)

lemma remove_errored_filter_gen:
  "i \<le> length cs \<Longrightarrow>
     remove_errored i cs = filter (\<lambda>c. Error c = None) (take i cs) @ drop i cs"
proof (induction i arbitrary: cs)
  case 0
  show ?case by simp
next
  case (Suc i)
  then have lt: "i < length cs" by simp
  have tk: "take (Suc i) cs = take i cs @ [cs ! i]"
    using lt by (simp add: take_Suc_conv_app_nth)
  show ?case
  proof (cases "Error (cs ! i) = None")
    case True
    with Suc lt show ?thesis
      by (simp add: tk Cons_nth_drop_Suc)
  next
    case False
    have "i \<le> length (take i cs @ drop (Suc i) cs)" using lt by simp
    from Suc.IH [OF this] False lt show ?thesis
      by (simp add: tk min_def)
  qed
qed

lemma remove_errored_filter:
  "remove_errored (length cs) cs = filter (\<lambda>c. Error c = None) cs"
  by (simp add: remove_errored_filter_gen)

lemma posix_simps:
  "GOOS_windows (posix f s) = False"
  "Separator (posix f s) = ''/''"
  "filepath_Join (posix f s) = posix_Join"
  "filepath_Dir (posix f s) = posix_Dir"
  "filepath_Clean (posix f s) = posix_Clean"
  "EqualFold (posix f s) = ascii_EqualFold"
  "UnixNano (posix f s) = (\<lambda>w. (clock w, w\<lparr>clock := clock w + 1\<rparr>))"
  "os_MkdirAll (posix f s) = posix_MkdirAll"
  "os_Rename (posix f s) = posix_Rename"
  "os_Remove (posix f s) = posix_Remove"
  "os_ReadFile (posix f s) = posix_ReadFile"
  "os_Create (posix f s) = posix_Create"
  "file_Write (posix f s) = posix_Write"
  "file_Close (posix f s) = (\<lambda>name w. (None, w))"
  "xdg_DataFile (posix f s) = posix_DataFile"
  "xdg_SearchDataFile (posix f s) = posix_SearchDataFile"
  "json_Unmarshal (posix f s) = posix_Unmarshal"
  "GetConflicts (posix f s) = []"
  "print (posix f s) = (\<lambda>r w. w\<lparr>terminal := terminal w @ [r]\<rparr>)"
  "FilesBeforeDirs (posix f s) = f"
  "SliceStable (posix f s) = s"
  "os_Stat (posix f s) = posix_Stat"
  "os_ReadDir (posix f s) = posix_ReadDir"
  by (simp_all add: posix_def)

lemma GetOutput_posix:
  "GetOutput (posix f s) conf (Some cs) None =
     Inr [JObject ([(''working_dir'', JString (WorkingDir conf)), (''date'', JString (Date conf))]
            @ (if cs = [] then [] else [(''changes'', JArray (map marshal_Change cs))])
            @ [(''dry_run'', JBool (\<not> Exec conf))])]"
  by (simp add: GetOutput_def json_MarshalIndent_def slice_member_def posix_simps)

lemma backupChanges_posix:
  assumes "data_writable w"
  shows "\<exists>b. GetOutput (posix f s) conf (Some (filter (\<lambda>c. Error c = None) changes)) None = Inr b
     \<and> backupChanges (posix f s) conf changes cwd w
       = (None, w\<lparr>data := AList.update (backup_path (posix f s) w cwd) b
                          (AList.update (backup_path (posix f s) w cwd) [] (data w))\<rparr>)"
  using assms
  by (simp add: GetOutput_posix backupChanges_def remove_errored_filter backup_path_def
      bufio_Write_def bufio_Flush_def Let_def posix_simps
      posix_DataFile_def posix_Create_def posix_Write_def update_conv')

lemma decode_marshal_Change:
  "decode_Change (marshal_Change c) = Inr (c\<lparr>Error := None\<rparr>)"
  by (simp add: decode_Change_def marshal_Change_def decode_string_def)

lemma decode_marshal_Changes:
  "decode_Changes (map marshal_Change cs) = Inr (map (\<lambda>c. c\<lparr>Error := None\<rparr>) cs)"
  by (induction cs) (simp_all add: decode_marshal_Change)

lemma map_clear_error_filter:
  "map (\<lambda>c. c\<lparr>Error := None\<rparr>) (filter (\<lambda>c. Error c = None) cs) = filter (\<lambda>c. Error c = None) cs"
  by (induction cs) auto

lemma Unmarshal_GetOutput:
  assumes "GetOutput (posix f s) conf (Some cs) None = Inr b"
  shows "\<exists>out. posix_Unmarshal b = Inr out
           \<and> (case Changes out of None \<Rightarrow> [] | Some cs \<Rightarrow> cs) = map (\<lambda>c. c\<lparr>Error := None\<rparr>) cs"
  using assms
  by (cases "cs = []")
     (auto simp: GetOutput_posix posix_Unmarshal_def decode_string_def decode_bool_def decode_changes_member_def
        decode_errors_member_def decode_conflicts_member_def decode_marshal_Changes)

text \<open>
  C6. In the POSIX world with a writable data directory, whatever the backup file held
  before: \<open>backupChanges\<close> returns no error, and the file then holds exactly the one
  document that \<open>GetOutput\<close> builds from the changes without an \<open>Error\<close>, in their order;
  read back, the snapshot's change list is that list. The file is created (truncated)
  and the buffered bytes reach it in the one write of \<open>Flush\<close>.
\<close>

theorem backup_snapshot:
  assumes "data_writable w"
  shows "\<exists>b out.
      GetOutput (posix f s) conf (Some (filter (\<lambda>c. Error c = None) changes)) None = Inr b
    \<and> fst (backupChanges (posix f s) conf changes cwd w) = None
    \<and> map_of (data (snd (backupChanges (posix f s) conf changes cwd w)))
         (backup_path (posix f s) w cwd) = Some b
    \<and> posix_Unmarshal b = Inr out
    \<and> (case Changes out of None \<Rightarrow> [] | Some cs \<Rightarrow> cs) = filter (\<lambda>c. Error c = None) changes"
proof -
  from backupChanges_posix [OF assms, of f s conf changes cwd] obtain b where
    b: "GetOutput (posix f s) conf (Some (filter (\<lambda>c. Error c = None) changes)) None = Inr b"
    and r: "backupChanges (posix f s) conf changes cwd w
       = (None, w\<lparr>data := AList.update (backup_path (posix f s) w cwd) b
                          (AList.update (backup_path (posix f s) w cwd) [] (data w))\<rparr>)"
    by blast
  from Unmarshal_GetOutput [OF b] obtain out where
    "posix_Unmarshal b = Inr out"
    "(case Changes out of None \<Rightarrow> [] | Some cs \<Rightarrow> cs) = filter (\<lambda>c. Error c = None) changes"
    by (auto simp: map_clear_error_filter)
  with b r show ?thesis by (auto simp: update_conv')
qed

theorem backup_snapshot_witness:
  "data_writable (example_world\<lparr>data := [(''/home/u/.local/share/f2/backups/_w.json'', [JNull])]\<rparr>)
   \<and> (\<exists>b out.
      GetOutput example_sys example_conf
        (Some (filter (\<lambda>c. Error c = None)
           [mk_change ''/w'' ''a.txt'' ''c.txt'',
            (mk_change ''/w'' ''missing.txt'' ''x.txt'')\<lparr>Error := Some ENOENT\<rparr>])) None = Inr b
    \<and> fst (backupChanges example_sys example_conf
           [mk_change ''/w'' ''a.txt'' ''c.txt'',
            (mk_change ''/w'' ''missing.txt'' ''x.txt'')\<lparr>Error := Some ENOENT\<rparr>] ''/w''
           (example_world\<lparr>data := [(''/home/u/.local/share/f2/backups/_w.json'', [JNull])]\<rparr>)) = None
    \<and> map_of (data (snd (backupChanges example_sys example_conf
           [mk_change ''/w'' ''a.txt'' ''c.txt'',
            (mk_change ''/w'' ''missing.txt'' ''x.txt'')\<lparr>Error := Some ENOENT\<rparr>] ''/w''
           (example_world\<lparr>data := [(''/home/u/.local/share/f2/backups/_w.json'', [JNull])]\<rparr>))))
         (backup_path example_sys
           (example_world\<lparr>data := [(''/home/u/.local/share/f2/backups/_w.json'', [JNull])]\<rparr>)
           ''/w'') = Some b
    \<and> posix_Unmarshal b = Inr out
    \<and> (case Changes out of None \<Rightarrow> [] | Some cs \<Rightarrow> cs)
        = filter (\<lambda>c. Error c = None)
           [mk_change ''/w'' ''a.txt'' ''c.txt'',
            (mk_change ''/w'' ''missing.txt'' ''x.txt'')\<lparr>Error := Some ENOENT\<rparr>])
   \<and> backup_path example_sys
        (example_world\<lparr>data := [(''/home/u/.local/share/f2/backups/_w.json'', [JNull])]\<rparr>) ''/w''
      = ''/home/u/.local/share/f2/backups/_w.json''"
  (is "?H \<and> ?C \<and> ?P")
proof -
  have h: ?H by code_simp
  have p: ?P by code_simp
  from backup_snapshot [OF h] have c: ?C .
  show ?thesis by (rule conjI [OF h conjI [OF c p]])
qed

lemma posix_Rename_frame: "posix_Rename a b w = (r, w') \<Longrightarrow> same_data w w'"
  by (auto simp: posix_Rename_def same_data_def Let_def
      split: option.splits node.splits if_splits)

lemma posix_MkdirAll_frame: "posix_MkdirAll p w = (r, w') \<Longrightarrow> same_data w w'"
  by (auto simp: posix_MkdirAll_def same_data_def split: sum.splits)

lemma same_data_trans: "same_data a b \<Longrightarrow> same_data b c \<Longrightarrow> same_data a c"
  by (simp add: same_data_def)

lemma same_data_refl: "same_data a a"
  by (simp add: same_data_def)

lemma create_dirs_frame: "create_dirs (posix f s) c w = (r, w') \<Longrightarrow> same_data w w'"
  by (auto simp: create_dirs_def posix_simps same_data_refl
      dest: posix_MkdirAll_frame split: if_splits)

lemma attempt_posix_frame:
  assumes "attempt (posix f s) c w = (r, w')"
  shows "same_data w w'"
proof -
  have clk: "same_data w (w\<lparr>clock := k\<rparr>)" for k by (simp add: same_data_def)
  show ?thesis
    using assms
    by (auto simp: attempt_def Let_def posix_simps same_data_refl
        split: if_splits prod.splits option.splits
        dest!: create_dirs_frame posix_Rename_frame
        intro: same_data_trans [OF clk] same_data_trans)
qed

lemma rename_loop_posix_frame:
  "rename_loop (posix f s) i cs (errs, w) = (cs', errs', w') \<Longrightarrow> same_data w w'"
proof (induction cs arbitrary: i errs w cs' errs' w')
  case Nil
  then show ?case by (simp add: same_data_refl)
next
  case (Cons c cs)
  obtain c1 e1 w1 where it: "rename_iteration (posix f s) i c (errs, w) = (c1, e1, w1)"
    by (cases "rename_iteration (posix f s) i c (errs, w)") auto
  obtain cs2 where lp: "rename_loop (posix f s) (Suc i) cs (e1, w1) = (cs2, errs', w')"
    using Cons.prems it by (auto split: prod.splits)
  from it have "same_data w w1"
    by (auto simp: rename_iteration_attempt split: prod.splits option.splits
        dest: attempt_posix_frame)
  with Cons.IH [OF lp] show ?case by (rule same_data_trans [rotated])
qed

lemma fold_print_frame:
  "same_data w (fold (\<lambda>c. print (posix f s) (g c)) cs w)"
  by (induction cs arbitrary: w rule: rev_induct) (simp_all add: posix_simps same_data_def)

text \<open>
  C10. Outside revert mode \<open>commit\<close> writes the backup file whatever the outcome of the
  renames: afterwards the file of the working directory holds the snapshot of the
  changes that \<open>rename\<close> left without an \<open>Error\<close>, and nothing of what it held before.
  When every change failed, that snapshot has no \<open>changes\<close> member and reads back as an
  empty change list.
\<close>

theorem commit_overwrites_backup:
  assumes "\<not> Revert conf" and "data_writable w"
    and "rename (posix f s) changes (errs, w) = (renamed, errs1, w1)"
  shows "\<exists>b out.
      GetOutput (posix f s) conf (Some (filter (\<lambda>c. Error c = None) renamed)) None = Inr b
    \<and> map_of (data (snd (snd (commit (posix f s) conf changes (errs, w)))))
         (backup_path (posix f s) w (WorkingDir conf)) = Some b
    \<and> posix_Unmarshal b = Inr out
    \<and> (case Changes out of None \<Rightarrow> [] | Some cs \<Rightarrow> cs) = filter (\<lambda>c. Error c = None) renamed
    \<and> (if list_all (\<lambda>c. Error c \<noteq> None) renamed
        then Changes out = None
          \<and> b = [JObject [(''working_dir'', JString (WorkingDir conf)),
                 (''date'', JString (Date conf)), (''dry_run'', JBool (\<not> Exec conf))]]
        else Changes out \<noteq> None)"
proof -
  let ?sys = "posix f s"
  let ?w2 = "if Verbose conf then fold (\<lambda>c. print ?sys (verbose_line ?sys c)) renamed w1 else w1"
  from assms(3) have "same_data w w1"
    by (auto simp: rename_def dest: rename_loop_posix_frame)
  moreover have "same_data w1 ?w2" by (simp add: fold_print_frame same_data_refl)
  ultimately have sd: "same_data w ?w2" by (rule same_data_trans)
  then have wr: "data_writable ?w2" and bp: "backup_path ?sys ?w2 = backup_path ?sys w"
    using assms(2) by (auto simp: same_data_def backup_path_def fun_eq_iff)
  let ?ok = "filter (\<lambda>c. Error c = None) renamed"
  from backupChanges_posix [OF wr, of f s conf renamed "WorkingDir conf"] obtain b where
    b: "GetOutput ?sys conf (Some ?ok) None = Inr b"
    and r: "backupChanges ?sys conf renamed (WorkingDir conf) ?w2
       = (None, ?w2\<lparr>data := AList.update (backup_path ?sys w (WorkingDir conf)) b
                          (AList.update (backup_path ?sys w (WorkingDir conf)) [] (data ?w2))\<rparr>)"
    unfolding bp by blast
  have c: "snd (snd (commit ?sys conf changes (errs, w)))
      = ?w2\<lparr>data := AList.update (backup_path ?sys w (WorkingDir conf)) b
                          (AList.update (backup_path ?sys w (WorkingDir conf)) [] (data ?w2))\<rparr>"
    using assms(1,3) r by (simp add: commit_def Let_def)
  from Unmarshal_GetOutput [OF b] obtain out where o:
    "posix_Unmarshal b = Inr out"
    "(case Changes out of None \<Rightarrow> [] | Some cs \<Rightarrow> cs) = ?ok"
    by (auto simp: map_clear_error_filter)
  have e: "list_all (\<lambda>c. Error c \<noteq> None) renamed \<longleftrightarrow> ?ok = []"
    by (auto simp: list_all_iff filter_empty_conv)
  have "if ?ok = [] then Changes out = None
          \<and> b = [JObject [(''working_dir'', JString (WorkingDir conf)),
                 (''date'', JString (Date conf)), (''dry_run'', JBool (\<not> Exec conf))]]
        else Changes out \<noteq> None"
    using b o
    by (auto simp: GetOutput_posix posix_Unmarshal_def decode_string_def decode_bool_def decode_changes_member_def
        decode_errors_member_def decode_conflicts_member_def decode_marshal_Changes
        split: if_splits)
  with b c o e show ?thesis by (auto simp: update_conv')
qed

theorem commit_overwrites_backup_witness:
  "\<not> Revert example_conf
   \<and> data_writable (example_world\<lparr>data := [(''/home/u/.local/share/f2/backups/_w.json'',
        [JObject [(''working_dir'', JString ''/w''), (''date'', JString ''2023-12-31T00:00:00Z''),
           (''changes'', JArray [marshal_Change (mk_change ''/w'' ''old.txt'' ''a.txt'')]),
           (''dry_run'', JBool False)]])]\<rparr>)
   \<and> rename example_sys [mk_change ''/w'' ''missing.txt'' ''x.txt'']
        ([], example_world\<lparr>data := [(''/home/u/.local/share/f2/backups/_w.json'',
        [JObject [(''working_dir'', JString ''/w''), (''date'', JString ''2023-12-31T00:00:00Z''),
           (''changes'', JArray [marshal_Change (mk_change ''/w'' ''old.txt'' ''a.txt'')]),
           (''dry_run'', JBool False)]])]\<rparr>)
      = ([(mk_change ''/w'' ''missing.txt'' ''x.txt'')\<lparr>Error := Some ENOENT\<rparr>], [0],
         example_world\<lparr>data := [(''/home/u/.local/share/f2/backups/_w.json'',
        [JObject [(''working_dir'', JString ''/w''), (''date'', JString ''2023-12-31T00:00:00Z''),
           (''changes'', JArray [marshal_Change (mk_change ''/w'' ''old.txt'' ''a.txt'')]),
           (''dry_run'', JBool False)]])]\<rparr>)
   \<and> (\<exists>b out.
      GetOutput example_sys example_conf
        (Some (filter (\<lambda>c. Error c = None)
           [(mk_change ''/w'' ''missing.txt'' ''x.txt'')\<lparr>Error := Some ENOENT\<rparr>])) None = Inr b
    \<and> map_of (data (snd (snd (commit example_sys example_conf
           [mk_change ''/w'' ''missing.txt'' ''x.txt'']
           ([], example_world\<lparr>data := [(''/home/u/.local/share/f2/backups/_w.json'',
        [JObject [(''working_dir'', JString ''/w''), (''date'', JString ''2023-12-31T00:00:00Z''),
           (''changes'', JArray [marshal_Change (mk_change ''/w'' ''old.txt'' ''a.txt'')]),
           (''dry_run'', JBool False)]])]\<rparr>)))))
         (backup_path example_sys
           (example_world\<lparr>data := [(''/home/u/.local/share/f2/backups/_w.json'',
        [JObject [(''working_dir'', JString ''/w''), (''date'', JString ''2023-12-31T00:00:00Z''),
           (''changes'', JArray [marshal_Change (mk_change ''/w'' ''old.txt'' ''a.txt'')]),
           (''dry_run'', JBool False)]])]\<rparr>)
           (WorkingDir example_conf)) = Some b
    \<and> posix_Unmarshal b = Inr out
    \<and> (case Changes out of None \<Rightarrow> [] | Some cs \<Rightarrow> cs)
        = filter (\<lambda>c. Error c = None)
           [(mk_change ''/w'' ''missing.txt'' ''x.txt'')\<lparr>Error := Some ENOENT\<rparr>]
    \<and> (if list_all (\<lambda>c. Error c \<noteq> None)
             [(mk_change ''/w'' ''missing.txt'' ''x.txt'')\<lparr>Error := Some ENOENT\<rparr>]
        then Changes out = None
          \<and> b = [JObject [(''working_dir'', JString (WorkingDir example_conf)),
                 (''date'', JString (Date example_conf)),
                 (''dry_run'', JBool (\<not> Exec example_conf))]]
        else Changes out \<noteq> None))"
  (is "?H1 \<and> ?H2 \<and> ?H3 \<and> ?C")
proof -
  have h1: ?H1 by code_simp
  have h2: ?H2 by code_simp
  have h3: ?H3 by code_simp
  from commit_overwrites_backup [OF h1 h2 h3] have c: ?C .
  show ?thesis by (rule conjI [OF h1 conjI [OF h2 conjI [OF h3 c]]])
qed

section \<open>Properties of Undo\<close>


section \<open>The elements of a path\<close>



section \<open>Properties of walk\<close>

lemma keys_update: "fst ` set (AList.update k v al) = insert k (fst ` set al)"
  by (induction al) auto

lemma keys_fold_update:
  "fst ` set (fold (\<lambda>(dir, dirContents). AList.update dir dirContents) cl paths)
     = fst ` set paths \<union> fst ` set cl"
proof (induction cl arbitrary: paths)
  case Nil
  show ?case by simp
next
  case (Cons c cl)
  obtain d e where c: "c = (d, e)" by (cases c)
  show ?case by (simp add: c Cons.IH keys_update)
qed

lemma walk_entries_nonempty:
  "walk_entries sys w dir es cl = Inr cl' \<Longrightarrow> cl \<noteq> [] \<Longrightarrow> cl' \<noteq> []"
proof (induction es arbitrary: cl)
  case Nil
  then show ?case by simp
next
  case (Cons e es)
  show ?case
  proof (cases "IsDir e")
    case False
    with Cons show ?thesis by simp
  next
    case True
    with Cons.prems obtain de where
      rest: "walk_entries sys w dir es (AList.update (filepath_Join sys [dir, Name e]) de cl) = Inr cl'"
      by (auto simp: Let_def split: sum.splits)
    have "AList.update (filepath_Join sys [dir, Name e]) de cl \<noteq> []"
      by (cases cl) auto
    from Cons.IH [OF rest this] show ?thesis .
  qed
qed

































section \<open>Properties of the two-step rename\<close>



















section \<open>Commit and undo of a plain batch\<close>

























end
